theory Spec2Isabelle
  imports Complex_Main
begin

section \<open>Materials\<close>

text \<open>
  The stencil comparison functions and stencil operations of the rendering library, as
  the enumerations the source selects from (\<open>THREE.AlwaysStencilFunc\<close>,
  \<open>THREE.EqualStencilFunc\<close>, \<open>THREE.ReplaceStencilOp\<close>).
\<close>

datatype stencil_func =
  NeverStencilFunc | LessStencilFunc | EqualStencilFunc | LessEqualStencilFunc
  | GreaterStencilFunc | NotEqualStencilFunc | GreaterEqualStencilFunc | AlwaysStencilFunc

datatype stencil_op =
  ZeroStencilOp | KeepStencilOp | ReplaceStencilOp | IncrementStencilOp
  | DecrementStencilOp | IncrementWrapStencilOp | DecrementWrapStencilOp | InvertStencilOp

record material =
  color :: string
  stencilWrite :: bool
  stencilRef :: int
  stencilFunc :: stencil_func
  stencilZPass :: stencil_op
  colorWrite :: bool
  depthWrite :: bool

text \<open>
  \<open>new THREE.MeshPhongMaterial({color: c})\<close>: the constructor belongs to the rendering
  library; a fresh material carries the library's documented defaults for the fields the
  source goes on to assign.
\<close>

definition MeshPhongMaterial :: "string \<Rightarrow> material" where
  "MeshPhongMaterial c =
     \<lparr>color = c, stencilWrite = False, stencilRef = 0, stencilFunc = AlwaysStencilFunc,
      stencilZPass = KeepStencilOp, colorWrite = True, depthWrite = True\<rparr>"

text \<open>\<open>createMat\<close>, main.js lines 24-42.\<close>

definition createMat :: "bool \<Rightarrow> int \<Rightarrow> string \<Rightarrow> string \<Rightarrow> material" where
  "createMat needStencil referenceNum pColor objColor =
     (if needStencil then
        (let planeMaterial = MeshPhongMaterial pColor;
             planeMaterial = planeMaterial\<lparr>stencilWrite := True\<rparr>;
             planeMaterial = planeMaterial\<lparr>stencilRef := referenceNum\<rparr>;
             planeMaterial = planeMaterial\<lparr>stencilFunc := AlwaysStencilFunc\<rparr>;
             planeMaterial = planeMaterial\<lparr>stencilZPass := ReplaceStencilOp\<rparr>;
             planeMaterial = planeMaterial\<lparr>colorWrite := False\<rparr>;
             planeMaterial = planeMaterial\<lparr>depthWrite := False\<rparr>
         in planeMaterial)
      else
        (let objectMaterial = MeshPhongMaterial objColor;
             objectMaterial = objectMaterial\<lparr>stencilWrite := True\<rparr>;
             objectMaterial = objectMaterial\<lparr>stencilRef := referenceNum\<rparr>;
             objectMaterial = objectMaterial\<lparr>stencilFunc := EqualStencilFunc\<rparr>
         in objectMaterial))"

section \<open>Scene nodes and the object heap\<close>

text \<open>
  Scene nodes and materials are JavaScript objects: they are shared by reference and
  mutated in place. The heap maps a reference (a natural number) to the object it
  denotes. A node's \<open>material\<close> is \<open>None\<close> where the JavaScript property is
  \<open>undefined\<close> (a group node has no material); \<open>children\<close> is the array of child
  references, which every node has.
\<close>

record vec3 =
  vx :: real
  vy :: real
  vz :: real

record object3d =
  position :: vec3
  rotation :: vec3
  scale :: vec3
  material :: "nat option"
  children :: "nat list"

record heap =
  objects :: "nat \<Rightarrow> object3d"
  materials :: "nat \<Rightarrow> material"

text \<open>
  Errors are values. \<open>TypeError\<close> is what JavaScript throws on reading or writing a
  property of \<open>undefined\<close>; \<open>LoadError\<close> stands for whatever rejection the resource
  loader signals.
\<close>

datatype error = TypeError | LoadError

definition and_then :: "error + 'a \<Rightarrow> ('a \<Rightarrow> error + 'b) \<Rightarrow> error + 'b" where
  "and_then r f = (case r of Inl e \<Rightarrow> Inl e | Inr v \<Rightarrow> f v)"

text \<open>\<open>xs[i]\<close> on a JavaScript array: \<open>undefined\<close> out of range.\<close>

definition item :: "'a list \<Rightarrow> nat \<Rightarrow> 'a option" where
  "item xs i = (if i < length xs then Some (xs ! i) else None)"

text \<open>\<open>r.children\<close>, \<open>r.children[i]\<close> and \<open>r.material\<close> on a value \<open>r\<close> that may be
  \<open>undefined\<close>: the property read throws on \<open>undefined\<close>.\<close>

definition children_of :: "heap \<Rightarrow> nat option \<Rightarrow> error + nat list" where
  "children_of h r = (case r of None \<Rightarrow> Inl TypeError | Some a \<Rightarrow> Inr (children (objects h a)))"

definition child :: "heap \<Rightarrow> nat option \<Rightarrow> nat \<Rightarrow> error + nat option" where
  "child h r i = and_then (children_of h r) (\<lambda>cs. Inr (item cs i))"

definition material_of :: "heap \<Rightarrow> nat option \<Rightarrow> error + nat option" where
  "material_of h r = (case r of None \<Rightarrow> Inl TypeError | Some a \<Rightarrow> Inr (material (objects h a)))"

text \<open>\<open>m.field = v\<close> on a material reference \<open>m\<close>: throws on \<open>undefined\<close>, otherwise
  updates the material object in place.\<close>

definition assign :: "nat option \<Rightarrow> (material \<Rightarrow> material) \<Rightarrow> heap \<Rightarrow> error + heap" where
  "assign m f h =
     (case m of None \<Rightarrow> Inl TypeError
      | Some a \<Rightarrow> Inr (h\<lparr>materials := (materials h)(a := f (materials h a))\<rparr>))"

text \<open>\<open>object.children[i].material.field = v\<close>\<close>

definition assign_child :: "nat option \<Rightarrow> nat \<Rightarrow> (material \<Rightarrow> material) \<Rightarrow> heap \<Rightarrow> error + heap" where
  "assign_child object i f h =
     and_then (child h object i) (\<lambda>c.
     and_then (material_of h c) (\<lambda>m. assign m f h))"

text \<open>\<open>object.children[i].children[j].material.field = v\<close>\<close>

definition assign_grandchild ::
  "nat option \<Rightarrow> nat \<Rightarrow> nat \<Rightarrow> (material \<Rightarrow> material) \<Rightarrow> heap \<Rightarrow> error + heap" where
  "assign_grandchild object i j f h =
     and_then (child h object i) (\<lambda>c.
     and_then (child h c j) (\<lambda>g.
     and_then (material_of h g) (\<lambda>m. assign m f h)))"

section \<open>The model loader and stencil tagger\<close>

text \<open>
  \<open>GLTFLoader.loadAsync\<close> is an external collaborator and a parameter of the model: given
  a path and the heap it either rejects or returns the reference of \<open>data.scene\<close> together
  with the heap that now holds the loaded objects.
\<close>

type_synonym loader = "string \<Rightarrow> heap \<Rightarrow> error + (nat \<times> heap)"

text \<open>
  \<open>loadModel\<close>, main.js lines 195-220 (the same text as lines 181-206 of the second
  script). The result is the returned value (\<open>None\<close> for \<open>undefined\<close>) and the heap after
  the assignments; a thrown error rejects the call. A call that throws part-way has
  already made some assignments, but to objects that nothing refers to once the call is
  rejected, so a rejected call carries no heap.
\<close>

definition loadModel :: "loader \<Rightarrow> string \<Rightarrow> bool \<Rightarrow> int \<Rightarrow> heap \<Rightarrow> error + (nat option \<times> heap)" where
  "loadModel loadAsync path needStencil refNum h =
     and_then (loadAsync path h) (\<lambda>(data_scene, h).
       let object = item (children (objects h data_scene)) 0 in
       if needStencil then
         and_then (child h object 0) (\<lambda>c0.
         and_then (children_of h c0) (\<lambda>cs.
           if length cs \<noteq> 0 then
             and_then (assign_grandchild object 0 0 (\<lambda>m. m\<lparr>stencilWrite := True\<rparr>) h) (\<lambda>h.
             and_then (assign_grandchild object 0 0 (\<lambda>m. m\<lparr>stencilRef := refNum\<rparr>) h) (\<lambda>h.
             and_then (assign_grandchild object 0 0 (\<lambda>m. m\<lparr>stencilFunc := EqualStencilFunc\<rparr>) h) (\<lambda>h.
             and_then (assign_grandchild object 2 0 (\<lambda>m. m\<lparr>stencilWrite := True\<rparr>) h) (\<lambda>h.
             and_then (assign_grandchild object 2 2 (\<lambda>m. m\<lparr>stencilRef := refNum\<rparr>) h) (\<lambda>h.
             and_then (assign_grandchild object 2 2 (\<lambda>m. m\<lparr>stencilFunc := EqualStencilFunc\<rparr>) h) (\<lambda>h.
             Inr (object, h)))))))
           else
             and_then (assign_child object 0 (\<lambda>m. m\<lparr>stencilWrite := True\<rparr>) h) (\<lambda>h.
             and_then (assign_child object 0 (\<lambda>m. m\<lparr>stencilRef := refNum\<rparr>) h) (\<lambda>h.
             and_then (assign_child object 0 (\<lambda>m. m\<lparr>stencilFunc := EqualStencilFunc\<rparr>) h) (\<lambda>h.
             Inr (object, h))))))
       else Inr (object, h))"

text \<open>
  The claim about the accesses of the stencil-tagging walk names the shapes under which
  every access is in bounds. This predicate follows that wording (it is compared with
  \<open>loadModel\<close> below): a first child with a material when that child has no
  children; otherwise a material on the first child's child 0, and a child 2 whose
  children 0 and 2 exist and have materials.
\<close>

definition anticipated_shape :: "heap \<Rightarrow> nat option \<Rightarrow> bool" where
  "anticipated_shape h object =
     (case object of None \<Rightarrow> False | Some ob \<Rightarrow>
       (case item (children (objects h ob)) 0 of None \<Rightarrow> False | Some c0 \<Rightarrow>
          if children (objects h c0) = [] then material (objects h c0) \<noteq> None
          else (case item (children (objects h c0)) 0 of None \<Rightarrow> False
                | Some g \<Rightarrow> material (objects h g) \<noteq> None) \<and>
               (case item (children (objects h ob)) 2 of None \<Rightarrow> False | Some c2 \<Rightarrow>
                  (case item (children (objects h c2)) 0 of None \<Rightarrow> False
                   | Some g \<Rightarrow> material (objects h g) \<noteq> None) \<and>
                  (case item (children (objects h c2)) 2 of None \<Rightarrow> False
                   | Some g \<Rightarrow> material (objects h g) \<noteq> None))))"

section \<open>Program state\<close>

text \<open>
  The module-level variables of main.js that the loading routines and the animators use,
  with the heap. \<open>scene\<close> is the child array of the scene object. \<open>impossibleCube\<close>,
  \<open>block\<close> and \<open>planet\<close> are declared without a value at line 90 (\<open>None\<close> is
  \<open>undefined\<close>); \<open>direction\<close> is declared at line 96. The face collections \<open>rings\<close>,
  \<open>triangles\<close>, \<open>blocks\<close>, \<open>bars\<close>, \<open>hexagons\<close> and \<open>diamonds\<close> are used by the
  routines but their declarations are not part of the file, so their initial values are
  left to the initial state. \<open>diamond\<close> is the local constant of \<open>loadTopFace\<close>; it is
  kept here because it lives across the awaits of that routine.
\<close>

record state =
  heap :: heap
  scene :: "nat list"
  impossibleCube :: "nat option"
  block :: "nat option"
  planet :: "nat option"
  direction :: real
  rings :: "nat list"
  triangles :: "nat list"
  blocks :: "nat list"
  bars :: "nat list list"
  hexagons :: "nat list"
  diamonds :: "nat list"
  diamond :: "nat option"

abbreviation Vector3 :: "real \<Rightarrow> real \<Rightarrow> real \<Rightarrow> vec3" where
  "Vector3 a b c \<equiv> \<lparr>vx = a, vy = b, vz = c\<rparr>"

text \<open>In-place update of the node behind a reference; \<open>scene.add(a)\<close>.\<close>

definition update_object :: "nat \<Rightarrow> (object3d \<Rightarrow> object3d) \<Rightarrow> state \<Rightarrow> state" where
  "update_object a f s =
     s\<lparr>heap := (heap s)\<lparr>objects := (objects (heap s))(a := f (objects (heap s) a))\<rparr>\<rparr>"



section \<open>Per-frame animators\<close>

text \<open>
  JavaScript numbers are modelled as real numbers (exact arithmetic).

  \<open>animateBackFace\<close>, main.js lines 274-284. The loop runs over
  \<open>0 \<le> i < triangles.length\<close>, so both array reads of the body are in range.
\<close>

definition animateBackFace_body :: "nat \<Rightarrow> state \<Rightarrow> state" where
  "animateBackFace_body i s =
     (let s = update_object (triangles s ! i)
                (\<lambda>ob. ob\<lparr>position := (position ob)
                            \<lparr>vz := vz (position ob) + real i / 300 * direction s\<rparr>\<rparr>) s;
          s = update_object (triangles s ! i)
                (\<lambda>ob. ob\<lparr>rotation := (rotation ob)
                            \<lparr>vz := vz (rotation ob) + real i / 1000 * direction s\<rparr>\<rparr>) s
      in if vz (position (objects (heap s) (triangles s ! (length (triangles s) - 1)))) > 25
         then s\<lparr>direction := - 4\<rparr>
         else if vz (position (objects (heap s) (triangles s ! (length (triangles s) - 1)))) < - 8.5
         then s\<lparr>direction := 1\<rparr>
         else s)"

definition animateBackFace :: "state \<Rightarrow> state" where
  "animateBackFace s = fold animateBackFace_body [0..<length (triangles s)] s"

text \<open>The z-position of the last triangle, and the distance it moves per frame when
  \<open>direction = 1\<close>.\<close>

definition last_z :: "state \<Rightarrow> real" where
  "last_z s = vz (position (objects (heap s) (last (triangles s))))"

definition up_step :: "state \<Rightarrow> real" where
  "up_step s = real (length (triangles s) - 1) / 300"


section \<open>Face-loading routines\<close>

















section \<open>The scene assembler\<close>







section \<open>Concrete models and states\<close>

definition blank :: object3d where
  "blank = \<lparr>position = Vector3 0 0 0, rotation = Vector3 0 0 0, scale = Vector3 1 1 1,
            material = None, children = []\<rparr>"

definition empty_heap :: heap where
  "empty_heap = \<lparr>objects = (\<lambda>_. blank), materials = (\<lambda>_. MeshPhongMaterial ''white'')\<rparr>"

text \<open>A model of the compound shape: the node 1 has the children 2, 3, 4; the meshes 5
  (below 2) and 6, 8 (below 4) have the materials 0, 1, 2.\<close>

definition compound_model :: "heap \<Rightarrow> heap" where
  "compound_model h =
     h\<lparr>objects := (objects h)
         (0 := blank\<lparr>children := [1]\<rparr>,
          1 := blank\<lparr>children := [2, 3, 4]\<rparr>,
          2 := blank\<lparr>children := [5]\<rparr>,
          3 := blank,
          4 := blank\<lparr>children := [6, 7, 8]\<rparr>,
          5 := blank\<lparr>material := Some 0\<rparr>,
          6 := blank\<lparr>material := Some 1\<rparr>,
          7 := blank,
          8 := blank\<lparr>material := Some 2\<rparr>),
       materials := (materials h)
         (0 := MeshPhongMaterial ''white'', 1 := MeshPhongMaterial ''white'',
          2 := MeshPhongMaterial ''white'')\<rparr>"

definition compound_loader :: loader where
  "compound_loader path h = Inr (0, compound_model h)"

text \<open>A model of the simple shape: the node 1 has the mesh 2 (material 0) and the group
  3, whose meshes 4 and 5 have the materials 1 and 2. The loader puts every model it
  loads at the same references.\<close>

definition simple_model :: "heap \<Rightarrow> heap" where
  "simple_model h =
     h\<lparr>objects := (objects h)
         (0 := blank\<lparr>children := [1]\<rparr>,
          1 := blank\<lparr>children := [2, 3]\<rparr>,
          2 := blank\<lparr>material := Some 0\<rparr>,
          3 := blank\<lparr>children := [4, 5]\<rparr>,
          4 := blank\<lparr>material := Some 1\<rparr>,
          5 := blank\<lparr>material := Some 2\<rparr>),
       materials := (materials h)
         (0 := MeshPhongMaterial ''white'', 1 := MeshPhongMaterial ''white'',
          2 := MeshPhongMaterial ''white'')\<rparr>"

definition simple_loader :: loader where
  "simple_loader path h = Inr (0, simple_model h)"

text \<open>A model without children, on which the walk fails.\<close>

definition childless_loader :: loader where
  "childless_loader path h = Inr (0, h\<lparr>objects := (objects h)(0 := blank\<lparr>children := [1]\<rparr>, 1 := blank)\<rparr>)"

definition initial_state :: state where
  "initial_state =
     \<lparr>heap = empty_heap, scene = [], impossibleCube = None, block = None, planet = None,
      direction = 1, rings = [], triangles = [], blocks = [], bars = [[], [], []],
      hexagons = [], diamonds = [], diamond = None\<rparr>"

text \<open>Twenty triangles, the nodes 0 to 19, all at the z-position \<open>z\<close>; twenty-five
  blocks, the nodes 0 to 24.\<close>

definition back_state :: "real \<Rightarrow> state" where
  "back_state z =
     initial_state\<lparr>heap := empty_heap\<lparr>objects := (\<lambda>_. blank\<lparr>position := Vector3 0 0 z\<rparr>)\<rparr>,
                   triangles := [0..<20]\<rparr>"



section \<open>The invariant of the back-face oscillation\<close>

text \<open>
  What every frame of \<open>animateBackFace\<close> maintains, relative to the state \<open>s0\<close> the
  animation started from: the collection is unchanged, \<open>direction\<close> is 1 or -4, it is -4
  whenever the last triangle is beyond 25 and 1 whenever it is below -8.5, and the last
  triangle stays within one downward step below -8.5 and one upward step above 25.
\<close>

definition back_inv :: "state \<Rightarrow> state \<Rightarrow> bool" where
  "back_inv s0 s \<longleftrightarrow>
     triangles s = triangles s0 \<and>
     (direction s = 1 \<or> direction s = - 4) \<and>
     (last_z s > 25 \<longrightarrow> direction s = - 4) \<and>
     (last_z s < - 17 / 2 \<longrightarrow> direction s = 1) \<and>
     - 17 / 2 - 4 * up_step s0 \<le> last_z s \<and> last_z s \<le> 25 + up_step s0"

section \<open>The material generator\<close>

text \<open>
  Claim C10. Every material returned by \<open>createMat\<close> has \<open>stencilWrite = true\<close> and
  \<open>stencilRef = referenceNum\<close>. With \<open>needStencil = true\<close> it also has the compare
  function Always, the z-pass operation Replace, and colour and depth writes switched
  off. With \<open>needStencil = false\<close> it has the compare function Equal, and its colour and
  depth writes are those of a fresh material, which are enabled.
\<close>

theorem createMat_fields:
  "stencilWrite (createMat needStencil referenceNum pColor objColor) = True \<and>
   stencilRef (createMat needStencil referenceNum pColor objColor) = referenceNum \<and>
   stencilFunc (createMat True referenceNum pColor objColor) = AlwaysStencilFunc \<and>
   stencilZPass (createMat True referenceNum pColor objColor) = ReplaceStencilOp \<and>
   colorWrite (createMat True referenceNum pColor objColor) = False \<and>
   depthWrite (createMat True referenceNum pColor objColor) = False \<and>
   stencilFunc (createMat False referenceNum pColor objColor) = EqualStencilFunc \<and>
   colorWrite (createMat False referenceNum pColor objColor) = colorWrite (MeshPhongMaterial objColor) \<and>
   depthWrite (createMat False referenceNum pColor objColor) = depthWrite (MeshPhongMaterial objColor) \<and>
   colorWrite (createMat False referenceNum pColor objColor) = True \<and>
   depthWrite (createMat False referenceNum pColor objColor) = True"
  by (simp add: createMat_def MeshPhongMaterial_def)

section \<open>The stencil-tagging walk\<close>

text \<open>The two assignment paths, as one case distinction over the accesses they make.\<close>

lemma assign_child_eq:
  "assign_child object i f h =
     (case object of None \<Rightarrow> Inl TypeError | Some ob \<Rightarrow>
       (case item (children (objects h ob)) i of None \<Rightarrow> Inl TypeError | Some c \<Rightarrow>
         (case material (objects h c) of None \<Rightarrow> Inl TypeError
          | Some a \<Rightarrow> Inr (h\<lparr>materials := (materials h)(a := f (materials h a))\<rparr>))))"
  by (simp add: assign_child_def child_def children_of_def material_of_def assign_def and_then_def
      split: option.splits)

lemma assign_grandchild_eq:
  "assign_grandchild object i j f h =
     (case object of None \<Rightarrow> Inl TypeError | Some ob \<Rightarrow>
       (case item (children (objects h ob)) i of None \<Rightarrow> Inl TypeError | Some c \<Rightarrow>
         (case item (children (objects h c)) j of None \<Rightarrow> Inl TypeError | Some g \<Rightarrow>
           (case material (objects h g) of None \<Rightarrow> Inl TypeError
            | Some a \<Rightarrow> Inr (h\<lparr>materials := (materials h)(a := f (materials h a))\<rparr>)))))"
  by (simp add: assign_grandchild_def child_def children_of_def material_of_def assign_def and_then_def
      split: option.splits)

text \<open>With \<open>needStencil = true\<close> a call that resolves returns a node, never
  \<open>undefined\<close>.\<close>

lemma loadModel_stencil_defined:
  "loadModel loadAsync path True refNum h = Inr (r, h') \<Longrightarrow> r \<noteq> None"
  by (auto simp add: loadModel_def and_then_def child_def children_of_def Let_def
      assign_child_eq assign_grandchild_eq
      split: sum.splits prod.splits option.splits if_splits)

text \<open>
  Claim C1, at a compound model whose three tagged meshes have materials of their own
  (\<open>compound_model\<close>), with \<open>refNum = 5\<close>. The call returns the node. The material of
  \<open>children[0].children[0]\<close> (material 0) gets all three fields. The material of
  \<open>children[2].children[0]\<close> (material 1) gets only \<open>stencilWrite = true\<close>; the material
  of \<open>children[2].children[2]\<close> (material 2) gets only the reference value and the
  compare function Equal. So one material, not two, ends up with stencil write enabled,
  the reference value 5 and the compare function Equal.
\<close>

theorem loadModel_compound_split_tag:
  "(case loadModel compound_loader ''./models/cubeFrame.gltf'' True 5 empty_heap of
      Inl e \<Rightarrow> False
    | Inr (r, h') \<Rightarrow> r = Some 1 \<and>
        materials h' 0 = (MeshPhongMaterial ''white'')
           \<lparr>stencilWrite := True, stencilRef := 5, stencilFunc := EqualStencilFunc\<rparr> \<and>
        materials h' 1 = (MeshPhongMaterial ''white'')\<lparr>stencilWrite := True\<rparr> \<and>
        materials h' 2 = (MeshPhongMaterial ''white'')
           \<lparr>stencilRef := 5, stencilFunc := EqualStencilFunc\<rparr> \<and>
        {a. stencilWrite (materials h' a) \<and> stencilRef (materials h' a) = 5 \<and>
            stencilFunc (materials h' a) = EqualStencilFunc} = {0})"
  by (auto simp add: loadModel_def and_then_def child_def children_of_def
        assign_grandchild_eq compound_loader_def compound_model_def empty_heap_def item_def
        blank_def MeshPhongMaterial_def Let_def)

text \<open>
  Claim C5. When the loaded node has the simple shape (its first child has no
  children) and that child has a material \<open>m\<close>, \<open>loadModel\<close> with \<open>needStencil = true\<close>
  returns the node, and the heap after the call is the loaded heap with exactly the
  material \<open>m\<close> changed: stencil write enabled, reference value \<open>refNum\<close>, compare
  function Equal. No node and no other material is touched.
\<close>

theorem loadModel_simple_shape:
  assumes "loadAsync path h = Inr (data_scene, h0)"
      and "item (children (objects h0 data_scene)) 0 = Some object"
      and "item (children (objects h0 object)) 0 = Some c0"
      and "children (objects h0 c0) = []"
      and "material (objects h0 c0) = Some m"
  shows "loadModel loadAsync path True refNum h =
           Inr (Some object,
                h0\<lparr>materials := (materials h0)
                     (m := (materials h0 m)\<lparr>stencilWrite := True, stencilRef := refNum,
                                            stencilFunc := EqualStencilFunc\<rparr>)\<rparr>)"
  using assms
  by (simp add: loadModel_def and_then_def child_def children_of_def assign_child_eq)

theorem loadModel_simple_shape_witness:
  "simple_loader ''models/ring.gltf'' empty_heap = Inr (0, simple_model empty_heap) \<and>
   item (children (objects (simple_model empty_heap) 0)) 0 = Some 1 \<and>
   item (children (objects (simple_model empty_heap) 1)) 0 = Some 2 \<and>
   children (objects (simple_model empty_heap) 2) = [] \<and>
   material (objects (simple_model empty_heap) 2) = Some 0 \<and>
   loadModel simple_loader ''models/ring.gltf'' True 2 empty_heap =
     Inr (Some 1,
          (simple_model empty_heap)\<lparr>materials := (materials (simple_model empty_heap))
             (0 := (materials (simple_model empty_heap) 0)
                      \<lparr>stencilWrite := True, stencilRef := 2, stencilFunc := EqualStencilFunc\<rparr>)\<rparr>)"
proof -
  have 1: "simple_loader ''models/ring.gltf'' empty_heap = Inr (0, simple_model empty_heap)"
    by (simp add: simple_loader_def)
  have 2: "item (children (objects (simple_model empty_heap) 0)) 0 = Some 1"
    by (simp add: simple_model_def item_def)
  have 3: "item (children (objects (simple_model empty_heap) 1)) 0 = Some 2"
    by (simp add: simple_model_def item_def)
  have 4: "children (objects (simple_model empty_heap) 2) = []"
    by (simp add: simple_model_def blank_def)
  have 5: "material (objects (simple_model empty_heap) 2) = Some 0"
    by (simp add: simple_model_def)
  show ?thesis
    using 1 2 3 4 5
      loadModel_simple_shape [where loadAsync = simple_loader and path = "''models/ring.gltf''"
        and h = empty_heap and data_scene = 0 and ?h0.0 = "simple_model empty_heap" and object = 1
        and ?c0.0 = 2 and m = 0 and refNum = 2]
    by simp
qed

text \<open>
  Claim C6. With \<open>needStencil = false\<close>, \<open>loadModel\<close> returns the first child of the
  loaded scene (\<open>undefined\<close> when there is none) and leaves the heap exactly as the
  loader produced it: no material and no node is changed.
\<close>

theorem loadModel_no_stencil:
  assumes "loadAsync path h = Inr (data_scene, h0)"
  shows "loadModel loadAsync path False refNum h = Inr (item (children (objects h0 data_scene)) 0, h0)"
  using assms by (simp add: loadModel_def and_then_def)

theorem loadModel_no_stencil_witness:
  "simple_loader ''models/ring.gltf'' empty_heap = Inr (0, simple_model empty_heap) \<and>
   loadModel simple_loader ''models/ring.gltf'' False 2 empty_heap =
     Inr (Some 1, simple_model empty_heap)"
proof -
  have 1: "simple_loader ''models/ring.gltf'' empty_heap = Inr (0, simple_model empty_heap)"
    by (simp add: simple_loader_def)
  have 2: "item (children (objects (simple_model empty_heap) 0)) 0 = Some 1"
    by (simp add: simple_model_def item_def)
  show ?thesis
    using 1 2
      loadModel_no_stencil [where loadAsync = simple_loader and path = "''models/ring.gltf''"
        and h = empty_heap and data_scene = 0 and ?h0.0 = "simple_model empty_heap" and refNum = 2]
    by simp
qed

text \<open>
  Claim C9. Once the loader has returned, a call with \<open>needStencil = true\<close> resolves
  (with the extracted node) exactly when that node has one of the two anticipated
  shapes; on every other node some access of the walk hits \<open>undefined\<close> and the call
  fails with a TypeError.
\<close>

theorem loadModel_in_bounds_iff:
  assumes "loadAsync path h = Inr (data_scene, h0)"
  shows "(anticipated_shape h0 (item (children (objects h0 data_scene)) 0) \<longrightarrow>
            (\<exists>h1. loadModel loadAsync path True refNum h =
                     Inr (item (children (objects h0 data_scene)) 0, h1))) \<and>
         (\<not> anticipated_shape h0 (item (children (objects h0 data_scene)) 0) \<longrightarrow>
            loadModel loadAsync path True refNum h = Inl TypeError)"
  using assms
  by (auto simp add: loadModel_def and_then_def child_def children_of_def assign_child_eq
        assign_grandchild_eq anticipated_shape_def Let_def split: option.splits)

theorem loadModel_in_bounds_iff_witness:
  "compound_loader ''a.gltf'' empty_heap = Inr (0, compound_model empty_heap) \<and>
   anticipated_shape (compound_model empty_heap)
     (item (children (objects (compound_model empty_heap) 0)) 0) \<and>
   (\<exists>h1. loadModel compound_loader ''a.gltf'' True 3 empty_heap = Inr (Some 1, h1)) \<and>
   childless_loader ''b.gltf'' empty_heap =
     Inr (0, empty_heap\<lparr>objects := (objects empty_heap)(0 := blank\<lparr>children := [1]\<rparr>, 1 := blank)\<rparr>) \<and>
   \<not> anticipated_shape
       (empty_heap\<lparr>objects := (objects empty_heap)(0 := blank\<lparr>children := [1]\<rparr>, 1 := blank)\<rparr>)
       (item (children (objects
          (empty_heap\<lparr>objects := (objects empty_heap)(0 := blank\<lparr>children := [1]\<rparr>, 1 := blank)\<rparr>) 0)) 0) \<and>
   loadModel childless_loader ''b.gltf'' True 3 empty_heap = Inl TypeError"
proof -
  have 1: "compound_loader ''a.gltf'' empty_heap = Inr (0, compound_model empty_heap)"
    by (simp add: compound_loader_def)
  have 2: "item (children (objects (compound_model empty_heap) 0)) 0 = Some 1"
    by (simp add: compound_model_def item_def)
  have 3: "anticipated_shape (compound_model empty_heap) (Some 1)"
    by (simp add: anticipated_shape_def compound_model_def item_def blank_def)
  have 4: "childless_loader ''b.gltf'' empty_heap =
     Inr (0, empty_heap\<lparr>objects := (objects empty_heap)(0 := blank\<lparr>children := [1]\<rparr>, 1 := blank)\<rparr>)"
    by (simp add: childless_loader_def)
  have 5: "\<not> anticipated_shape
       (empty_heap\<lparr>objects := (objects empty_heap)(0 := blank\<lparr>children := [1]\<rparr>, 1 := blank)\<rparr>)
       (item (children (objects
          (empty_heap\<lparr>objects := (objects empty_heap)(0 := blank\<lparr>children := [1]\<rparr>, 1 := blank)\<rparr>) 0)) 0)"
    by (simp add: anticipated_shape_def item_def blank_def)
  show ?thesis
    using 1 2 3 4 5
      loadModel_in_bounds_iff [where loadAsync = compound_loader and path = "''a.gltf''"
        and h = empty_heap and data_scene = 0 and ?h0.0 = "compound_model empty_heap" and refNum = 3]
      loadModel_in_bounds_iff [where loadAsync = childless_loader and path = "''b.gltf''"
        and h = empty_heap and data_scene = 0 and refNum = 3
        and ?h0.0 = "empty_heap\<lparr>objects := (objects empty_heap)(0 := blank\<lparr>children := [1]\<rparr>, 1 := blank)\<rparr>"]
    by simp
qed

section \<open>The back-face animator\<close>

lemma body_triangles [simp]: "triangles (animateBackFace_body i s) = triangles s"
  by (simp add: animateBackFace_body_def update_object_def Let_def)

lemma body_other:
  "a \<noteq> triangles s ! i \<Longrightarrow> objects (heap (animateBackFace_body i s)) a = objects (heap s) a"
  by (simp add: animateBackFace_body_def update_object_def Let_def)

lemma body_position:
  "vz (position (objects (heap (animateBackFace_body i s)) (triangles s ! i))) =
     vz (position (objects (heap s) (triangles s ! i))) + real i / 300 * direction s"
  by (simp add: animateBackFace_body_def update_object_def Let_def)

lemma body_direction:
  "direction (animateBackFace_body i s) =
     (if vz (position (objects (heap (animateBackFace_body i s)) (triangles s ! (length (triangles s) - 1)))) > 25
      then - 4
      else if vz (position (objects (heap (animateBackFace_body i s)) (triangles s ! (length (triangles s) - 1)))) < - 17 / 2
      then 1 else direction s)"
  by (simp add: animateBackFace_body_def update_object_def Let_def)

lemma fold_body_prefix:
  assumes "distinct (triangles s)" and "triangles s \<noteq> []"
      and "last_z s > 25 \<longrightarrow> direction s = - 4"
      and "last_z s < - 17 / 2 \<longrightarrow> direction s = 1"
      and "m \<le> length (triangles s) - 1"
  shows "triangles (fold animateBackFace_body [0..<m] s) = triangles s \<and>
         direction (fold animateBackFace_body [0..<m] s) = direction s \<and>
         objects (heap (fold animateBackFace_body [0..<m] s)) (last (triangles s)) =
           objects (heap s) (last (triangles s))"
  using assms(5)
proof (induction m)
  case 0
  then show ?case by simp
next
  case (Suc m)
  let ?t = "fold animateBackFace_body [0..<m] s"
  from Suc have IH: "triangles ?t = triangles s" "direction ?t = direction s"
    "objects (heap ?t) (last (triangles s)) = objects (heap s) (last (triangles s))"
    by simp_all
  have lst: "last (triangles s) = triangles s ! (length (triangles s) - 1)"
    using assms(2) by (simp add: last_conv_nth)
  have m: "m < length (triangles s) - 1" using Suc.prems by simp
  have ne: "last (triangles s) \<noteq> triangles ?t ! m"
    using assms(1) m unfolding lst IH(1) by (simp add: nth_eq_iff_index_eq)
  have ob: "objects (heap (animateBackFace_body m ?t)) (last (triangles s)) =
            objects (heap s) (last (triangles s))"
    using body_other [OF ne] IH(3) by simp
  have z: "vz (position (objects (heap (animateBackFace_body m ?t)) (triangles ?t ! (length (triangles ?t) - 1)))) = last_z s"
    unfolding IH(1) lst [symmetric] last_z_def using ob by simp
  have "direction (animateBackFace_body m ?t) =
          (if last_z s > 25 then - 4 else if last_z s < - 17 / 2 then 1 else direction ?t)"
    using body_direction [of m ?t] unfolding z .
  then have d: "direction (animateBackFace_body m ?t) = direction s"
    using assms(3,4) IH(2) by auto
  show ?case using ob d by (simp add: IH(1))
qed

lemma animateBackFace_last:
  assumes "distinct (triangles s)" and "triangles s \<noteq> []"
      and "last_z s > 25 \<longrightarrow> direction s = - 4"
      and "last_z s < - 17 / 2 \<longrightarrow> direction s = 1"
  shows "triangles (animateBackFace s) = triangles s"
    and "last_z (animateBackFace s) = last_z s + up_step s * direction s"
    and "direction (animateBackFace s) =
           (if last_z (animateBackFace s) > 25 then - 4
            else if last_z (animateBackFace s) < - 17 / 2 then 1 else direction s)"
proof -
  let ?n = "length (triangles s)"
  let ?t = "fold animateBackFace_body [0..<?n - 1] s"
  have n: "?n = Suc (?n - 1)" using assms(2) by simp
  have pre: "triangles ?t = triangles s" "direction ?t = direction s"
    "objects (heap ?t) (last (triangles s)) = objects (heap s) (last (triangles s))"
    using fold_body_prefix [OF assms, of "?n - 1"] by simp_all
  have "[0..<?n] = [0..<?n - 1] @ [?n - 1]"
    by (subst n) (simp only: upt_Suc_append le0)
  then have A: "animateBackFace s = animateBackFace_body (?n - 1) ?t"
    by (simp add: animateBackFace_def)
  have lst: "last (triangles s) = triangles s ! (?n - 1)"
    using assms(2) by (simp add: last_conv_nth)
  show T: "triangles (animateBackFace s) = triangles s"
    unfolding A using pre(1) by simp
  have P: "vz (position (objects (heap (animateBackFace_body (?n - 1) ?t)) (last (triangles s)))) =
           vz (position (objects (heap s) (last (triangles s)))) + real (?n - 1) / 300 * direction s"
    using body_position [of "?n - 1" ?t] unfolding pre lst [symmetric] .
  show Z: "last_z (animateBackFace s) = last_z s + up_step s * direction s"
    unfolding last_z_def T unfolding A P up_step_def by simp
  have "direction (animateBackFace_body (?n - 1) ?t) =
     (if vz (position (objects (heap (animateBackFace_body (?n - 1) ?t)) (last (triangles s)))) > 25
      then - 4
      else if vz (position (objects (heap (animateBackFace_body (?n - 1) ?t)) (last (triangles s)))) < - 17 / 2
      then 1 else direction s)"
    using body_direction [of "?n - 1" ?t] unfolding pre lst [symmetric] .
  then show "direction (animateBackFace s) =
           (if last_z (animateBackFace s) > 25 then - 4
            else if last_z (animateBackFace s) < - 17 / 2 then 1 else direction s)"
    unfolding last_z_def T unfolding A .
qed

lemma up_step_nonneg: "0 \<le> up_step s"
  by (simp add: up_step_def)

lemma up_step_cong: "triangles s = triangles s0 \<Longrightarrow> up_step s = up_step s0"
  by (simp add: up_step_def)

lemma back_inv_step:
  assumes "distinct (triangles s0)" and "triangles s0 \<noteq> []" and "back_inv s0 s"
  shows "back_inv s0 (animateBackFace s)"
proof -
  from assms(3) have T: "triangles s = triangles s0" by (simp add: back_inv_def)
  have d: "distinct (triangles s)" "triangles s \<noteq> []" using assms(1,2) T by simp_all
  have J: "last_z s > 25 \<longrightarrow> direction s = - 4" "last_z s < - 17 / 2 \<longrightarrow> direction s = 1"
    using assms(3) by (simp_all add: back_inv_def)
  note L = animateBackFace_last [OF d J]
  have u: "up_step s = up_step s0" using T by (rule up_step_cong)
  have u0: "0 \<le> up_step s0" by (rule up_step_nonneg)
  from assms(3) have
    D: "direction s = 1 \<or> direction s = - 4" and
    B: "- 17 / 2 - 4 * up_step s0 \<le> last_z s" "last_z s \<le> 25 + up_step s0"
    by (simp_all add: back_inv_def)
  have Z: "last_z (animateBackFace s) = last_z s + up_step s0 * direction s"
    using L(2) u by simp
  have lo: "- 17 / 2 - 4 * up_step s0 \<le> last_z (animateBackFace s)"
    using D J B u0 unfolding Z by auto
  have hi: "last_z (animateBackFace s) \<le> 25 + up_step s0"
    using D J B u0 unfolding Z by auto
  show ?thesis
    unfolding back_inv_def
    using L(1) T lo hi D by (auto simp add: L(3))
qed

lemma back_inv_iterate:
  assumes "distinct (triangles s0)" and "triangles s0 \<noteq> []" and "back_inv s0 s0"
  shows "back_inv s0 ((animateBackFace ^^ k) s0)"
  by (induction k) (simp_all add: assms back_inv_step)

text \<open>
  Claim C3, amended. Let the triangles be distinct nodes, \<open>direction = 1\<close>, and the last
  triangle's z-position below 25 and not more than one downward step (four times
  \<open>up_step\<close>) below -8.5. Then after any number \<open>k\<close> of frames: \<open>direction\<close> is 1 or
  -4; the last triangle's z-position lies between -8.5 minus one downward step and 25 plus
  one upward step; the next frame moves it by \<open>up_step * direction\<close>; and after that frame
  \<open>direction\<close> is -4 exactly when the new position exceeds 25, is 1 exactly when it is
  below -8.5, and is otherwise unchanged.
\<close>

theorem animateBackFace_oscillation:
  assumes "triangles s \<noteq> []" and "distinct (triangles s)"
      and "direction s = 1" and "last_z s < 25"
      and "- 17 / 2 - 4 * up_step s \<le> last_z s"
  shows "(direction ((animateBackFace ^^ k) s) = 1 \<or> direction ((animateBackFace ^^ k) s) = - 4) \<and>
         - 17 / 2 - 4 * up_step s \<le> last_z ((animateBackFace ^^ k) s) \<and>
         last_z ((animateBackFace ^^ k) s) \<le> 25 + up_step s \<and>
         last_z ((animateBackFace ^^ Suc k) s) =
           last_z ((animateBackFace ^^ k) s) + up_step s * direction ((animateBackFace ^^ k) s) \<and>
         direction ((animateBackFace ^^ Suc k) s) =
           (if last_z ((animateBackFace ^^ Suc k) s) > 25 then - 4
            else if last_z ((animateBackFace ^^ Suc k) s) < - 17 / 2 then 1
            else direction ((animateBackFace ^^ k) s))"
proof -
  have "back_inv s s"
    using assms up_step_nonneg [of s] by (simp add: back_inv_def)
  then have I: "back_inv s ((animateBackFace ^^ k) s)"
    using assms(1,2) by (simp add: back_inv_iterate)
  let ?t = "(animateBackFace ^^ k) s"
  from I have T: "triangles ?t = triangles s" by (simp add: back_inv_def)
  have d: "distinct (triangles ?t)" "triangles ?t \<noteq> []" using assms(1,2) T by simp_all
  have J: "last_z ?t > 25 \<longrightarrow> direction ?t = - 4" "last_z ?t < - 17 / 2 \<longrightarrow> direction ?t = 1"
    using I by (simp_all add: back_inv_def)
  note L = animateBackFace_last [OF d J]
  show ?thesis
    using I L(2) L(3) up_step_cong [OF T] by (simp add: back_inv_def)
qed

lemma back_state_facts:
  "triangles (back_state z) \<noteq> []" "distinct (triangles (back_state z))"
  "direction (back_state z) = 1" "last_z (back_state z) = z" "up_step (back_state z) = 19 / 300"
  by (simp_all add: back_state_def initial_state_def last_z_def up_step_def empty_heap_def blank_def)

text \<open>
  Claim C3 as stated asks only that the last triangle starts below 25 with
  \<open>direction = 1\<close>. Twenty triangles at z = -100 satisfy that, and after a frame the last
  one is at -100 + 19/300, far below -8.5 minus one downward step.
\<close>

theorem animateBackFace_unbounded_below:
  "last_z (back_state (- 100)) < 25 \<and> direction (back_state (- 100)) = 1 \<and>
   last_z (animateBackFace (back_state (- 100))) = - 100 + 19 / 300 \<and>
   last_z (animateBackFace (back_state (- 100))) < - 17 / 2 - 4 * up_step (back_state (- 100))"
  using animateBackFace_last(2) [of "back_state (- 100)"]
  by (simp add: back_state_facts)

theorem animateBackFace_oscillation_witness:
  "triangles (back_state (- 5 / 2)) \<noteq> [] \<and> distinct (triangles (back_state (- 5 / 2))) \<and>
   direction (back_state (- 5 / 2)) = 1 \<and> last_z (back_state (- 5 / 2)) < 25 \<and>
   - 17 / 2 - 4 * up_step (back_state (- 5 / 2)) \<le> last_z (back_state (- 5 / 2)) \<and>
   last_z ((animateBackFace ^^ Suc 0) (back_state (- 5 / 2))) = - 5 / 2 + 19 / 300 \<and>
   direction ((animateBackFace ^^ Suc 0) (back_state (- 5 / 2))) = 1"
  using animateBackFace_oscillation [of "back_state (- 5 / 2)" 0]
  by (simp add: back_state_facts)

section \<open>The left-face animator\<close>





section \<open>Effects of the loading steps\<close>










section \<open>Schedules\<close>

























section \<open>A complete run on a concrete loader\<close>






section \<open>The assembler\<close>










end
